theory Spec2Isabelle
  imports Complex_Main
begin

section \<open>Values of the program\<close>

text \<open>
  The script \<^verbatim>\<open>grapher.py\<close> reads a JSON array of activities
  (\<^verbatim>\<open>json.load\<close>), so an activity is whatever JSON value stands in the
  file. A JSON object is the Python dict it decodes to, kept as an association list
  read with \<open>map_of\<close>; JSON \<^verbatim>\<open>null\<close> is Python's \<^verbatim>\<open>None\<close>.

  Python floats and numpy's float64 are idealised as real numbers. The one non-real
  float that the program depends on is NaN (the missing value of pandas): a float cell
  is a \<open>real option\<close> and \<open>None\<close> is NaN. Arithmetic on NaN gives NaN, every
  comparison with NaN is false.
\<close>

datatype json =
    JNull
  | JBool bool
  | JInt int
  | JFloat real
  | JStr string
  | JArr "json list"
  | JObj "(string \<times> json) list"

text \<open>
  The exceptions that the script can raise. \<open>Unmodelled\<close> is not a Python
  exception: it marks an input that this development does not cover (a stream whose
  samples are not a JSON array of numbers), so that no statement is made about it.
\<close>

datatype error =
    TypeError
  | KeyError
  | ValueError
  | IndexError
  | ZeroDivisionError
  | Unmodelled

text \<open>\<^verbatim>\<open>x[key]\<close> with a string key: a dict looks the key up and raises
  KeyError when it is missing; every other JSON value raises TypeError (a list or a
  string wants an integer index, the others are not subscriptable).\<close>

fun py_getitem :: "json \<Rightarrow> string \<Rightarrow> error + json" where
  "py_getitem (JObj kvs) key =
     (case map_of kvs key of None \<Rightarrow> Inl KeyError | Some v \<Rightarrow> Inr v)"
| "py_getitem _ key = Inl TypeError"

text \<open>Iterating a value, as \<^verbatim>\<open>filter\<close> does: a list gives its elements, a
  dict its keys, a string its characters (strings of length one); anything else is not
  iterable.\<close>

fun py_iter :: "json \<Rightarrow> error + json list" where
  "py_iter (JArr xs) = Inr xs"
| "py_iter (JObj kvs) = Inr (map (\<lambda>kv. JStr (fst kv)) kvs)"
| "py_iter (JStr s) = Inr (map (\<lambda>c. JStr [c]) s)"
| "py_iter _ = Inl TypeError"

section \<open>\<^verbatim>\<open>get_stream\<close>\<close>

text \<open>
  \<^verbatim>\<open>list(filter(lambda s: s["type"] == stream, streams))\<close>: the elements are
  visited in order and the first one whose \<^verbatim>\<open>s["type"]\<close> raises ends the
  evaluation with that exception.
\<close>

fun filter_matches :: "string \<Rightarrow> json list \<Rightarrow> error + json list" where
  "filter_matches stream [] = Inr []"
| "filter_matches stream (s # ss) =
     (case py_getitem s ''type'' of
        Inl e \<Rightarrow> Inl e
      | Inr t \<Rightarrow>
          (case filter_matches stream ss of
             Inl e \<Rightarrow> Inl e
           | Inr ms \<Rightarrow> Inr (if t = JStr stream then s # ms else ms)))"

text \<open>The body of the \<^verbatim>\<open>try\<close> block. \<open>Inr JNull\<close> is
  \<^verbatim>\<open>return None\<close>.\<close>

definition get_stream_try :: "json \<Rightarrow> string \<Rightarrow> error + json" where
  "get_stream_try data stream =
     (case py_getitem data ''streams'' of
        Inl e \<Rightarrow> Inl e
      | Inr streams \<Rightarrow>
          (case py_iter streams of
             Inl e \<Rightarrow> Inl e
           | Inr ss \<Rightarrow>
               (case filter_matches stream ss of
                  Inl e \<Rightarrow> Inl e
                | Inr matches \<Rightarrow>
                    (case matches of
                       [] \<Rightarrow> Inr JNull
                     | m # _ \<Rightarrow> py_getitem m ''data''))))"

text \<open>\<^verbatim>\<open>except TypeError\<close>: a TypeError becomes \<^verbatim>\<open>None\<close>, every
  other exception goes on to the caller.\<close>

definition get_stream :: "json \<Rightarrow> string \<Rightarrow> error + json" where
  "get_stream data stream =
     (case get_stream_try data stream of
        Inl TypeError \<Rightarrow> Inr JNull
      | r \<Rightarrow> r)"

section \<open>\<^verbatim>\<open>get_zone\<close>\<close>

text \<open>Comparisons of a float that may be NaN with a constant.\<close>

definition nan_ge :: "real option \<Rightarrow> real \<Rightarrow> bool" where
  "nan_ge p c = (case p of None \<Rightarrow> False | Some x \<Rightarrow> c \<le> x)"

definition nan_lt :: "real option \<Rightarrow> real \<Rightarrow> bool" where
  "nan_lt p c = (case p of None \<Rightarrow> False | Some x \<Rightarrow> x < c)"

text \<open>
  \<^verbatim>\<open>percentage = (value * 100) / hr_max\<close>. The values reach the function as
  Python floats or ints (\<^verbatim>\<open>Series.apply\<close> boxes them), and
  \<^verbatim>\<open>hr_max\<close> is the int that argparse made, so a zero \<^verbatim>\<open>hr_max\<close>
  raises ZeroDivisionError, for NaN too.
\<close>

definition get_zone :: "real option \<Rightarrow> int \<Rightarrow> error + nat" where
  "get_zone val hr_max =
     (if hr_max = 0 then Inl ZeroDivisionError
      else
        let percentage = map_option (\<lambda>v. (v * 100) / real_of_int hr_max) val in
        if nan_ge percentage 50 \<and> nan_lt percentage 60 then Inr 1
        else if nan_ge percentage 60 \<and> nan_lt percentage 70 then Inr 2
        else if nan_ge percentage 70 \<and> nan_lt percentage 80 then Inr 3
        else if nan_ge percentage 80 \<and> nan_lt percentage 90 then Inr 4
        else if nan_ge percentage 90 then Inr 5
        else Inr 0)"

section \<open>The per-second series of one activity\<close>

text \<open>
  The samples of a stream as the script uses them: the time stream is a JSON array of
  integers (elapsed seconds), the heart-rate stream a JSON array of numbers. Any other
  shape is outside this development (\<open>None\<close>).
\<close>

fun as_int :: "json \<Rightarrow> int option" where
  "as_int (JInt i) = Some i"
| "as_int _ = None"

fun as_number :: "json \<Rightarrow> real option" where
  "as_number (JInt i) = Some (real_of_int i)"
| "as_number (JFloat r) = Some r"
| "as_number _ = None"

fun sequence_opt :: "'a option list \<Rightarrow> 'a list option" where
  "sequence_opt [] = Some []"
| "sequence_opt (x # xs) =
     (case x of
        None \<Rightarrow> None
      | Some y \<Rightarrow> (case sequence_opt xs of None \<Rightarrow> None | Some ys \<Rightarrow> Some (y # ys)))"

fun int_samples :: "json \<Rightarrow> int list option" where
  "int_samples (JArr xs) = sequence_opt (map as_int xs)"
| "int_samples _ = None"

fun number_samples :: "json \<Rightarrow> real list option" where
  "number_samples (JArr xs) = sequence_opt (map as_number xs)"
| "number_samples _ = None"

text \<open>
  A pandas Series is the list of its (index label, value) pairs, in order.
  \<^verbatim>\<open>pd.Series(hr_stream, index = time_stream)\<close> raises ValueError when the two
  lengths differ.
\<close>

type_synonym series = "(int \<times> real option) list"

definition Series :: "real list \<Rightarrow> int list \<Rightarrow> error + series" where
  "Series hr_stream time_stream =
     (if length hr_stream \<noteq> length time_stream then Inl ValueError
      else Inr (zip time_stream (map Some hr_stream)))"

text \<open>
  \<^verbatim>\<open>Series.drop_duplicates()\<close> compares the \<^emph>\<open>values\<close> of the series, not its
  index labels: an entry is dropped when an earlier entry has the same value
  (\<^verbatim>\<open>keep='first'\<close>). \<open>seen\<close> holds the values met so far.
\<close>

fun drop_duplicates_from :: "real option list \<Rightarrow> series \<Rightarrow> series" where
  "drop_duplicates_from seen [] = []"
| "drop_duplicates_from seen ((t, v) # s) =
     (if v \<in> set seen then drop_duplicates_from seen s
      else (t, v) # drop_duplicates_from (v # seen) s)"

definition drop_duplicates :: "series \<Rightarrow> series" where
  "drop_duplicates s = drop_duplicates_from [] s"

text \<open>
  \<^verbatim>\<open>max(time_stream)\<close> raises ValueError on an empty list.
\<close>

definition py_max :: "int list \<Rightarrow> error + int" where
  "py_max xs = (case xs of [] \<Rightarrow> Inl ValueError | y # ys \<Rightarrow> Inr (fold max ys y))"

text \<open>
  \<^verbatim>\<open>series.reindex(range(n))\<close>: pandas refuses to reindex a series whose index
  has a label twice (ValueError). Otherwise the result has the labels
  \<open>0, \<dots>, n - 1\<close> in order, each with the value the series had at that label, or NaN
  when the series had no such label; entries with other labels are dropped. The result
  is kept as the list of its values: position \<open>i\<close> is label \<open>i\<close>.
  \<^verbatim>\<open>range(n)\<close> is empty for \<open>n \<le> 0\<close>.
\<close>

definition reindex :: "series \<Rightarrow> int \<Rightarrow> error + real option list" where
  "reindex s n =
     (if \<not> distinct (map fst s) then Inl ValueError
      else Inr (map (\<lambda>i. case map_of s (int i) of None \<Rightarrow> None | Some v \<Rightarrow> v)
                  [0 ..< nat n]))"

text \<open>
  \<^verbatim>\<open>series.interpolate(method = "linear")\<close> with the defaults of pandas
  (\<^verbatim>\<open>limit_direction='forward'\<close>, no \<^verbatim>\<open>limit_area\<close>): the values are
  taken as equally spaced; a NaN between two known values is filled on the straight
  line through them; the NaNs before the first known value stay NaN; the NaNs after
  the last known value are filled with that last value.

  \<open>interpolate_after a n xs\<close> continues after a known value \<open>a\<close> followed by
  \<open>n\<close> NaNs.
\<close>

fun interpolate_after :: "real \<Rightarrow> nat \<Rightarrow> real option list \<Rightarrow> real option list" where
  "interpolate_after a n [] = replicate n (Some a)"
| "interpolate_after a n (None # xs) = interpolate_after a (Suc n) xs"
| "interpolate_after a n (Some b # xs) =
     map (\<lambda>j. Some (a + (b - a) * real j / real (Suc n))) [1 ..< Suc n]
       @ Some b # interpolate_after b 0 xs"

fun interpolate :: "real option list \<Rightarrow> real option list" where
  "interpolate [] = []"
| "interpolate (None # xs) = None # interpolate xs"
| "interpolate (Some a # xs) = Some a # interpolate_after a 0 xs"

text \<open>\<^verbatim>\<open>series.apply(lambda x: get_zone(x, hr_max))\<close>: every entry is
  classified, the NaN ones too; the first exception ends the evaluation.\<close>

fun apply_get_zone :: "real option list \<Rightarrow> int \<Rightarrow> error + nat list" where
  "apply_get_zone [] hr_max = Inr []"
| "apply_get_zone (x # xs) hr_max =
     (case get_zone x hr_max of
        Inl e \<Rightarrow> Inl e
      | Inr z \<Rightarrow>
          (case apply_get_zone xs hr_max of
             Inl e \<Rightarrow> Inl e
           | Inr zs \<Rightarrow> Inr (z # zs)))"

text \<open>
  \<^verbatim>\<open>series.groupby(series.values).aggregate(lambda x: len(x) / 60)\<close>: one entry
  per zone that occurs, holding the number of seconds in it divided by 60. A zone that
  does not occur has no entry.
\<close>

definition aggregate :: "nat list \<Rightarrow> nat \<Rightarrow> real option" where
  "aggregate zones key =
     (if key \<in> set zones then Some (real (count_list zones key) / 60) else None)"

text \<open>Lines 47 to 54 of \<^verbatim>\<open>process_activity\<close>: from the two sample lists to the
  interpolated per-second series.\<close>

definition activity_series :: "int list \<Rightarrow> real list \<Rightarrow> error + real option list" where
  "activity_series time_stream hr_stream =
     (case Series hr_stream time_stream of
        Inl e \<Rightarrow> Inl e
      | Inr series \<Rightarrow>
          (case py_max time_stream of
             Inl e \<Rightarrow> Inl e
           | Inr n \<Rightarrow>
               (case reindex (drop_duplicates series) n of
                  Inl e \<Rightarrow> Inl e
                | Inr dense \<Rightarrow> Inr (interpolate dense))))"

text \<open>Lines 56 and 57: the zone of every second of the series.\<close>

definition activity_zones :: "int list \<Rightarrow> real list \<Rightarrow> int \<Rightarrow> error + nat list" where
  "activity_zones time_stream hr_stream hr_max =
     (case activity_series time_stream hr_stream of
        Inl e \<Rightarrow> Inl e
      | Inr series \<Rightarrow> apply_get_zone series hr_max)"

section \<open>The daily table\<close>

text \<open>
  One row of the data frame. The columns are those of \<^verbatim>\<open>COLUMNS\<close>, and
  \<^verbatim>\<open>performance\<close>, the column that \<^verbatim>\<open>calculate_performance\<close> adds.
  A cell that holds NaN (every cell of the new frame does, and a column that does not
  exist yet reads as one) is \<open>None\<close>. The columns \<^verbatim>\<open>id\<close> and
  \<^verbatim>\<open>name\<close> hold whatever the activity has under these keys.
\<close>

record row =
  id_col :: "json option"
  name_col :: "json option"
  tz0 :: "real option"
  tz1 :: "real option"
  tz2 :: "real option"
  tz3 :: "real option"
  tz4 :: "real option"
  tz5 :: "real option"
  trimp :: "real option"
  fitness :: "real option"
  fatigue :: "real option"
  form :: "real option"
  performance :: "real option"

definition nan_row :: row where
  "nan_row = \<lparr> id_col = None, name_col = None,
               tz0 = None, tz1 = None, tz2 = None, tz3 = None, tz4 = None, tz5 = None,
               trimp = None, fitness = None, fatigue = None, form = None,
               performance = None \<rparr>"

text \<open>
  The data frame: its index is a range of days, a day being the number of a calendar
  day (any fixed numbering in which the next day is the next integer), and each day
  has its row. The list is in index order.
\<close>

type_synonym table = "(int \<times> row) list"

text \<open>\<^verbatim>\<open>pd.date_range(start_date, end_date)\<close>: every day from the first to the
  last, both included; empty when the first is after the last.\<close>

definition date_range :: "int \<Rightarrow> int \<Rightarrow> int list" where
  "date_range start_date end_date = [start_date .. end_date]"

definition DataFrame :: "int list \<Rightarrow> table" where
  "DataFrame index = map (\<lambda>d. (d, nan_row)) index"

text \<open>
  \<^verbatim>\<open>dateutil.parser.parse(activity["start_date"]).date()\<close>. The parser of
  dateutil is not part of the script: it is the parameter \<open>parse\<close>, which gives the
  day of the date written in a string, or \<open>None\<close> where dateutil raises its
  ParserError (a ValueError). A value that is not a string is a TypeError.
\<close>

definition activity_date :: "(string \<Rightarrow> int option) \<Rightarrow> json \<Rightarrow> error + int" where
  "activity_date parse activity =
     (case py_getitem activity ''start_date'' of
        Inl e \<Rightarrow> Inl e
      | Inr d \<Rightarrow>
          (case d of
             JStr s \<Rightarrow> (case parse s of None \<Rightarrow> Inl ValueError | Some day \<Rightarrow> Inr day)
           | _ \<Rightarrow> Inl TypeError))"

text \<open>\<^verbatim>\<open>row["tz%i" % key]\<close>, read and written, for the keys of
  \<^verbatim>\<open>range(0, 6)\<close>.\<close>

definition tz_get :: "row \<Rightarrow> nat \<Rightarrow> real option" where
  "tz_get r key =
     (if key = 0 then tz0 r else if key = 1 then tz1 r else if key = 2 then tz2 r
      else if key = 3 then tz3 r else if key = 4 then tz4 r else tz5 r)"

definition tz_set :: "nat \<Rightarrow> real option \<Rightarrow> row \<Rightarrow> row" where
  "tz_set key v r =
     (if key = 0 then r\<lparr>tz0 := v\<rparr> else if key = 1 then r\<lparr>tz1 := v\<rparr>
      else if key = 2 then r\<lparr>tz2 := v\<rparr> else if key = 3 then r\<lparr>tz3 := v\<rparr>
      else if key = 4 then r\<lparr>tz4 := v\<rparr> else r\<lparr>tz5 := v\<rparr>)"

text \<open>The body of the loop at the end of \<^verbatim>\<open>process_activity\<close>:
  \<^verbatim>\<open>tz = agg[key] if key in agg else 0\<close> and
  \<^verbatim>\<open>row[row_key] = (current if not pd.isnull(current) else 0) + tz\<close>.\<close>

definition add_zone :: "(nat \<Rightarrow> real option) \<Rightarrow> nat \<Rightarrow> row \<Rightarrow> row" where
  "add_zone agg key r =
     (let current = tz_get r key;
          tz = (case agg key of Some m \<Rightarrow> m | None \<Rightarrow> 0)
      in tz_set key (Some ((case current of Some c \<Rightarrow> c | None \<Rightarrow> 0) + tz)) r)"

definition put_values :: "json \<Rightarrow> json \<Rightarrow> (nat \<Rightarrow> real option) \<Rightarrow> row \<Rightarrow> row" where
  "put_values act_id act_name agg r =
     fold (add_zone agg) [0 ..< 6] (r\<lparr>id_col := Some act_id, name_col := Some act_name\<rparr>)"

text \<open>
  \<^verbatim>\<open>row = data_frame.loc[...]\<close> followed by the writes to \<^verbatim>\<open>row\<close>. The
  frame has one block of dtype object, so the row that \<^verbatim>\<open>loc\<close> returns is a view
  and the writes land in the frame (pandas without copy-on-write, which is what the
  script relies on). A day that is not in the index is a KeyError.
\<close>

definition loc_update :: "int \<Rightarrow> (row \<Rightarrow> row) \<Rightarrow> table \<Rightarrow> table" where
  "loc_update day f data_frame =
     map (\<lambda>(d, r). if d = day then (d, f r) else (d, r)) data_frame"

definition process_activity ::
  "(string \<Rightarrow> int option) \<Rightarrow> table \<Rightarrow> json \<Rightarrow> int \<Rightarrow> error + table" where
  "process_activity parse data_frame activity hr_max =
     (case get_stream activity ''time'' of
        Inl e \<Rightarrow> Inl e
      | Inr time_stream \<Rightarrow>
     (case get_stream activity ''heartrate'' of
        Inl e \<Rightarrow> Inl e
      | Inr hr_stream \<Rightarrow>
     if time_stream = JNull \<or> hr_stream = JNull then Inr data_frame
     else
     (case (int_samples time_stream, number_samples hr_stream) of
        (Some ts, Some hs) \<Rightarrow>
          (case activity_zones ts hs hr_max of
             Inl e \<Rightarrow> Inl e
           | Inr zones \<Rightarrow>
          (case activity_date parse activity of
             Inl e \<Rightarrow> Inl e
           | Inr day \<Rightarrow>
          if day \<notin> set (map fst data_frame) then Inl KeyError
          else
          (case py_getitem activity ''id'' of
             Inl e \<Rightarrow> Inl e
           | Inr act_id \<Rightarrow>
          (case py_getitem activity ''name'' of
             Inl e \<Rightarrow> Inl e
           | Inr act_name \<Rightarrow>
               Inr (loc_update day (put_values act_id act_name (aggregate zones))
                      data_frame)))))
      | _ \<Rightarrow> Inl Unmodelled)))"

section \<open>The training load\<close>

definition R1 :: real where "R1 = 60"
definition R2 :: real where "R2 = 5"
definition K1 :: real where "K1 = 0.0076"
definition K2 :: real where "K2 = 0.0020"

text \<open>Float arithmetic with NaN.\<close>

definition nan_add :: "real option \<Rightarrow> real option \<Rightarrow> real option" where
  "nan_add a b = (case a of None \<Rightarrow> None | Some x \<Rightarrow> map_option (\<lambda>y. x + y) b)"

definition nan_sub :: "real option \<Rightarrow> real option \<Rightarrow> real option" where
  "nan_sub a b = (case a of None \<Rightarrow> None | Some x \<Rightarrow> map_option (\<lambda>y. x - y) b)"

definition nan_times :: "real option \<Rightarrow> real \<Rightarrow> real option" where
  "nan_times a c = map_option (\<lambda>x. x * c) a"

text \<open>\<^verbatim>\<open>data_frame.fillna(0, inplace = True)\<close>: every missing cell becomes 0; in
  the object columns \<^verbatim>\<open>None\<close> is missing too.\<close>

definition fill_number :: "real option \<Rightarrow> real option" where
  "fill_number c = (case c of None \<Rightarrow> Some 0 | Some x \<Rightarrow> Some x)"

definition fill_object :: "json option \<Rightarrow> json option" where
  "fill_object c = (case c of None \<Rightarrow> Some (JInt 0) | Some JNull \<Rightarrow> Some (JInt 0) | Some x \<Rightarrow> Some x)"

definition fillna_row :: "row \<Rightarrow> row" where
  "fillna_row r =
     \<lparr> id_col = fill_object (id_col r), name_col = fill_object (name_col r),
       tz0 = fill_number (tz0 r), tz1 = fill_number (tz1 r), tz2 = fill_number (tz2 r),
       tz3 = fill_number (tz3 r), tz4 = fill_number (tz4 r), tz5 = fill_number (tz5 r),
       trimp = fill_number (trimp r), fitness = fill_number (fitness r),
       fatigue = fill_number (fatigue r), form = fill_number (form r),
       performance = performance r \<rparr>"

definition fillna :: "table \<Rightarrow> table" where
  "fillna data_frame = map (\<lambda>(d, r). (d, fillna_row r)) data_frame"

text \<open>Line 111:
  \<^verbatim>\<open>data_frame["trimp"] = tz1 + 2 * tz2 + 3 * tz3 + 4 * tz4 + 5 * tz5\<close>, row by
  row.\<close>

definition trimp_of :: "row \<Rightarrow> real option" where
  "trimp_of r =
     nan_add (nan_add (nan_add (nan_add (tz1 r) (nan_times (tz2 r) 2))
        (nan_times (tz3 r) 3)) (nan_times (tz4 r) 4)) (nan_times (tz5 r) 5)"

definition set_trimp :: "table \<Rightarrow> table" where
  "set_trimp data_frame = map (\<lambda>(d, r). (d, r\<lparr>trimp := trimp_of r\<rparr>)) data_frame"

text \<open>
  \<^verbatim>\<open>calculate_performance\<close>: the loop over the rows in index order, started from
  the values that \<^verbatim>\<open>fitness\<close> and \<^verbatim>\<open>fatigue\<close> have before the row.
\<close>

fun calculate_performance_from :: "real option \<Rightarrow> real option \<Rightarrow> table \<Rightarrow> table" where
  "calculate_performance_from fitness0 fatigue0 [] = []"
| "calculate_performance_from fitness0 fatigue0 ((index, r) # rest) =
     (let fitness1 = nan_add (nan_times fitness0 (exp (- 1 / R1))) (trimp r);
          fatigue1 = nan_add (nan_times fatigue0 (exp (- 1 / R2))) (trimp r);
          performance1 = nan_sub (nan_times fitness1 K1) (nan_times fatigue1 K2)
      in (index, r\<lparr>fitness := fitness1, fatigue := fatigue1, performance := performance1\<rparr>)
           # calculate_performance_from fitness1 fatigue1 rest)"

definition calculate_performance :: "table \<Rightarrow> table" where
  "calculate_performance data_frame = calculate_performance_from (Some 0) (Some 0) data_frame"

section \<open>The script\<close>

text \<open>\<^verbatim>\<open>data[0]\<close> on the value that \<^verbatim>\<open>json.load\<close> returned.\<close>

fun py_first :: "json \<Rightarrow> error + json" where
  "py_first (JArr []) = Inl IndexError"
| "py_first (JArr (x # xs)) = Inr x"
| "py_first (JStr []) = Inl IndexError"
| "py_first (JStr (c # cs)) = Inr (JStr [c])"
| "py_first (JObj kvs) = Inl KeyError"
| "py_first _ = Inl TypeError"

text \<open>The loop \<^verbatim>\<open>for activity in data: process_activity(...)\<close>; an exception
  ends the script.\<close>

fun process_all ::
  "(string \<Rightarrow> int option) \<Rightarrow> int \<Rightarrow> table \<Rightarrow> json list \<Rightarrow> error + table" where
  "process_all parse hr_max data_frame [] = Inr data_frame"
| "process_all parse hr_max data_frame (activity # rest) =
     (case process_activity parse data_frame activity hr_max of
        Inl e \<Rightarrow> Inl e
      | Inr data_frame' \<Rightarrow> process_all parse hr_max data_frame' rest)"

text \<open>
  The script from line 97 on, up to the plots. Its inputs are the parsed
  \<^verbatim>\<open>-hr_max\<close> (an int, argparse sees to that), the decoded file, and the day
  that \<^verbatim>\<open>datetime.date.today()\<close> returns. The result is the data frame that the
  plots read.
\<close>

definition build_frame :: "(string \<Rightarrow> int option) \<Rightarrow> int \<Rightarrow> json \<Rightarrow> error + table" where
  "build_frame parse today data =
     (case py_first data of
        Inl e \<Rightarrow> Inl e
      | Inr first \<Rightarrow>
          (case activity_date parse first of
             Inl e \<Rightarrow> Inl e
           | Inr start_date \<Rightarrow> Inr (DataFrame (date_range start_date today))))"

definition merged_frame ::
  "(string \<Rightarrow> int option) \<Rightarrow> int \<Rightarrow> int \<Rightarrow> json \<Rightarrow> error + table" where
  "merged_frame parse today hr_max data =
     (case build_frame parse today data of
        Inl e \<Rightarrow> Inl e
      | Inr data_frame \<Rightarrow>
          (case py_iter data of
             Inl e \<Rightarrow> Inl e
           | Inr activities \<Rightarrow> process_all parse hr_max data_frame activities))"

definition script :: "(string \<Rightarrow> int option) \<Rightarrow> int \<Rightarrow> int \<Rightarrow> json \<Rightarrow> error + table" where
  "script parse today hr_max data =
     (case merged_frame parse today hr_max data of
        Inl e \<Rightarrow> Inl e
      | Inr data_frame \<Rightarrow> Inr (calculate_performance (set_trimp (fillna data_frame))))"

section \<open>Example inputs\<close>

text \<open>
  A parser that reads the two date strings of the examples: 2023-01-01 is day 19358
  (counted from 1970-01-01) and 2022-12-31 is the day before.
\<close>

definition example_parse :: "string \<Rightarrow> int option" where
  "example_parse s =
     (if s = ''2023-01-01T08:00:00Z'' then Some 19358
      else if s = ''2022-12-31T08:00:00Z'' then Some 19357
      else None)"

text \<open>An activity record with a time and a heart-rate stream.\<close>

definition example_activity :: "string \<Rightarrow> json list \<Rightarrow> json list \<Rightarrow> json" where
  "example_activity start_date time_data hr_data =
     JObj [(''id'', JInt 1), (''name'', JStr ''Run''),
           (''start_date'', JStr start_date),
           (''streams'',
              JArr [JObj [(''type'', JStr ''time''), (''data'', JArr time_data)],
                    JObj [(''type'', JStr ''heartrate''), (''data'', JArr hr_data)]])]"

text \<open>The file of the end-to-end scenario: one activity, six samples at 90 beats.\<close>

definition example_data :: json where
  "example_data =
     JArr [example_activity ''2023-01-01T08:00:00Z''
             [JInt 0, JInt 1, JInt 2, JInt 3, JInt 4, JInt 5]
             [JInt 90, JInt 90, JInt 90, JInt 90, JInt 90, JInt 90]]"

text \<open>A file whose second activity is dated before its first.\<close>

definition example_unordered :: json where
  "example_unordered =
     JArr [example_activity ''2023-01-01T08:00:00Z'' [JInt 0, JInt 1] [JInt 90, JInt 91],
           example_activity ''2022-12-31T08:00:00Z'' [JInt 0, JInt 1] [JInt 90, JInt 91]]"

section \<open>The zone classifier\<close>



lemma get_zone_error:
  "get_zone v hr_max = Inl e \<longleftrightarrow> hr_max = 0 \<and> e = ZeroDivisionError"
  by (auto simp add: get_zone_def Let_def)





lemma apply_get_zone_error:
  "apply_get_zone xs hr_max = Inl e \<Longrightarrow> hr_max = 0 \<and> e = ZeroDivisionError"
  by (induction xs) (auto split: sum.splits simp: get_zone_error)





section \<open>The stream extractor\<close>





lemma filter_matches_dicts:
  "filter_matches stream ss = Inr ms \<Longrightarrow> set ms \<subseteq> set ss"
  by (induction ss arbitrary: ms) (auto split: sum.splits if_splits)







section \<open>The end-to-end scenario\<close>

lemma example_streams:
  "get_stream (example_activity sd ts hs) ''time'' = Inr (JArr ts)"
  "get_stream (example_activity sd ts hs) ''heartrate'' = Inr (JArr hs)"
  by (simp_all add: example_activity_def get_stream_def get_stream_try_def)

lemma example_fields:
  "py_getitem (example_activity sd ts hs) ''id'' = Inr (JInt 1)"
  "py_getitem (example_activity sd ts hs) ''name'' = Inr (JStr ''Run'')"
  "py_getitem (example_activity sd ts hs) ''start_date'' = Inr (JStr sd)"
  by (simp_all add: example_activity_def)

lemma loc_update_other:
  "day \<notin> set ds \<Longrightarrow> loc_update day f (DataFrame ds) = DataFrame ds"
  by (induction ds) (auto simp: loc_update_def DataFrame_def)

lemma loc_update_first:
  assumes "d \<le> today"
  shows "loc_update d f (DataFrame (date_range d today))
           = (d, f nan_row) # DataFrame (date_range (d + 1) today)"
proof -
  have "date_range d today = d # date_range (d + 1) today"
    using assms by (simp add: date_range_def upto_rec1)
  moreover have "d \<notin> set (date_range (d + 1) today)"
    by (simp add: date_range_def)
  ultimately show ?thesis
    using loc_update_other [of d "date_range (d + 1) today" f]
    by (simp add: loc_update_def DataFrame_def)
qed

lemma aggregate_or_0:
  "(case aggregate zones key of Some m \<Rightarrow> m | None \<Rightarrow> 0) = real (count_list zones key) / 60"
  by (simp add: aggregate_def count_list_0_iff)

lemma put_values_nan_row:
  "put_values i n (aggregate zones) nan_row =
     nan_row\<lparr>id_col := Some i, name_col := Some n,
       tz0 := Some (real (count_list zones 0) / 60),
       tz1 := Some (real (count_list zones 1) / 60),
       tz2 := Some (real (count_list zones 2) / 60),
       tz3 := Some (real (count_list zones 3) / 60),
       tz4 := Some (real (count_list zones 4) / 60),
       tz5 := Some (real (count_list zones 5) / 60)\<rparr>"
  by (simp add: put_values_def add_zone_def aggregate_or_0 tz_get_def tz_set_def nan_row_def
      upt_conv_Cons numeral_eq_Suc Let_def)

text \<open>The file with the one activity \<open>a\<close>, whose date is the day \<open>d\<close> and whose
  seconds have the zones \<open>zones\<close>.\<close>

lemma single_activity_merged:
  assumes "parse sd = Some d" and "d \<le> today"
    and "int_samples (JArr ts) = Some tms" and "number_samples (JArr hs) = Some rates"
    and "activity_zones tms rates hr_max = Inr zones"
  shows "merged_frame parse today hr_max (JArr [example_activity sd ts hs]) =
     Inr ((d, put_values (JInt 1) (JStr ''Run'') (aggregate zones) nan_row)
            # DataFrame (date_range (d + 1) today))"
proof -
  let ?a = "example_activity sd ts hs"
  have date: "activity_date parse ?a = Inr d"
    using assms(1) by (simp add: activity_date_def example_fields)
  have frame: "build_frame parse today (JArr [?a]) = Inr (DataFrame (date_range d today))"
    using date by (simp add: build_frame_def)
  have mem: "d \<in> set (map fst (DataFrame (date_range d today)))"
    using assms(2) by (simp add: DataFrame_def date_range_def comp_def)
  have "process_activity parse (DataFrame (date_range d today)) ?a hr_max =
          Inr (loc_update d (put_values (JInt 1) (JStr ''Run'') (aggregate zones))
                 (DataFrame (date_range d today)))"
    unfolding process_activity_def
    using date mem assms(3,4,5) by (simp add: example_streams example_fields del: int_samples.simps number_samples.simps)
  then show ?thesis
    using frame assms(2)
    by (simp add: merged_frame_def loc_update_first)
qed

lemma example_zones:
  "activity_zones [0, 1, 2, 3, 4, 5] [90, 90, 90, 90, 90, 90] 180 = Inr [1, 1, 1, 1, 1]"
  by code_simp

lemma example_script:
  assumes "parse ''2023-01-01T08:00:00Z'' = Some d" and "d \<le> today"
  shows "\<exists>rest. script parse today 180 example_data =
     Inr ((d, \<lparr> id_col = Some (JInt 1), name_col = Some (JStr ''Run''),
            tz0 = Some 0, tz1 = Some (5 / 60), tz2 = Some 0, tz3 = Some 0, tz4 = Some 0,
            tz5 = Some 0, trimp = Some (5 / 60), fitness = Some (5 / 60),
            fatigue = Some (5 / 60), form = Some 0,
            performance = Some (5 / 60 * 0.0076 - 5 / 60 * 0.0020) \<rparr>) # rest)"
proof -
  have "merged_frame parse today 180 example_data =
     Inr ((d, put_values (JInt 1) (JStr ''Run'') (aggregate [1, 1, 1, 1, 1]) nan_row)
            # DataFrame (date_range (d + 1) today))"
    unfolding example_data_def
    by (rule single_activity_merged [of parse _ d today, OF assms _ _ example_zones]) simp_all
  then show ?thesis
    unfolding put_values_nan_row
    by (simp add: script_def nan_row_def fillna_def fillna_row_def
        fill_number_def fill_object_def set_trimp_def trimp_of_def nan_add_def nan_times_def
        nan_sub_def calculate_performance_def K1_def K2_def Let_def)
qed

lemma example_script_today:
  "script example_parse 19358 180 example_data =
     Inr [(19358, \<lparr> id_col = Some (JInt 1), name_col = Some (JStr ''Run''),
            tz0 = Some 0, tz1 = Some (5 / 60), tz2 = Some 0, tz3 = Some 0, tz4 = Some 0,
            tz5 = Some 0, trimp = Some (5 / 60), fitness = Some (5 / 60),
            fatigue = Some (5 / 60), form = Some 0,
            performance = Some (5 / 60 * 0.0076 - 5 / 60 * 0.0020) \<rparr>)]"
proof -
  have "merged_frame example_parse 19358 180 example_data =
     Inr ((19358, put_values (JInt 1) (JStr ''Run'') (aggregate [1, 1, 1, 1, 1]) nan_row)
            # DataFrame (date_range (19358 + 1) 19358))"
    unfolding example_data_def
    by (rule single_activity_merged [of example_parse _ 19358 19358, OF _ _ _ _ example_zones])
      (simp_all add: example_parse_def)
  then show ?thesis
    unfolding put_values_nan_row
    by (simp add: script_def nan_row_def fillna_def fillna_row_def
        fill_number_def fill_object_def set_trimp_def trimp_of_def nan_add_def nan_times_def
        nan_sub_def calculate_performance_def K1_def K2_def Let_def date_range_def DataFrame_def)
qed

text \<open>
  Claim C2, as the code has it. One activity dated 2023-01-01 with maximum heart-rate
  180, time stream 0 to 5 and a heart-rate of 90 throughout: the dense domain is
  \<^verbatim>\<open>range(5)\<close>, five seconds, all of zone 1. Whatever day the run takes place
  (from that date on), the row of that date gets \<^verbatim>\<open>tz1\<close> = 5/60 minutes,
  \<^verbatim>\<open>trimp\<close> = 5/60, \<^verbatim>\<open>fitness\<close> = \<^verbatim>\<open>fatigue\<close> = 5/60 and
  \<^verbatim>\<open>performance\<close> = 5/60 * 0.0076 - 5/60 * 0.0020 = 7/15000.
\<close>

theorem scenario_one_activity:
  assumes "parse ''2023-01-01T08:00:00Z'' = Some d" and "d \<le> today"
  shows "\<exists>tbl r. script parse today 180 example_data = Inr tbl \<and> map_of tbl d = Some r
           \<and> tz1 r = Some (5 / 60) \<and> trimp r = Some (5 / 60)
           \<and> fitness r = Some (5 / 60) \<and> fatigue r = Some (5 / 60)
           \<and> performance r = Some (5 / 60 * 0.0076 - 5 / 60 * 0.0020)
           \<and> performance r = Some (7 / 15000)"
proof -
  obtain rest where "script parse today 180 example_data =
     Inr ((d, \<lparr> id_col = Some (JInt 1), name_col = Some (JStr ''Run''),
            tz0 = Some 0, tz1 = Some (5 / 60), tz2 = Some 0, tz3 = Some 0, tz4 = Some 0,
            tz5 = Some 0, trimp = Some (5 / 60), fitness = Some (5 / 60),
            fatigue = Some (5 / 60), form = Some 0,
            performance = Some (5 / 60 * 0.0076 - 5 / 60 * 0.0020) \<rparr>) # rest)"
    using example_script [of parse d today, OF assms] by blast
  then show ?thesis by simp
qed

theorem scenario_one_activity_witness:
  "example_parse ''2023-01-01T08:00:00Z'' = Some 19358 \<and> (19358::int) \<le> 19358
   \<and> (\<exists>tbl r. script example_parse 19358 180 example_data = Inr tbl
         \<and> map_of tbl 19358 = Some r \<and> tz1 r = Some (5 / 60))"
  using scenario_one_activity [of example_parse 19358 19358]
  by (simp add: example_parse_def) blast

text \<open>
  Claim C2 as stated fails: on that input the row of the date has no \<^verbatim>\<open>tz1\<close> of
  6/60, nor the values 0.1 and 0.00056 that follow from it.
\<close>

theorem scenario_one_activity_counterexample:
  "\<not> (\<exists>tbl r. script example_parse 19358 180 example_data = Inr tbl
         \<and> map_of tbl 19358 = Some r
         \<and> tz1 r = Some (6 / 60) \<and> trimp r = Some 0.1 \<and> fitness r = Some 0.1
         \<and> fatigue r = Some 0.1 \<and> performance r = Some 0.00056)"
  by (simp add: example_script_today)

section \<open>Gap filling\<close>













text \<open>
  Claim C5 on the code. \<^verbatim>\<open>drop_duplicates\<close> looks at the heart-rate values, not
  at the elapsed times. With the time 0 twice (heart-rates 90, 91, 92 at the times
  0, 0, 1) both samples of time 0 are kept and the reindexing raises ValueError. With
  the heart-rate 90 twice (at the times 0 and 1, then 95 and 96 at 2 and 3) the sample
  of time 1 is dropped, although no other sample has that time, and second 1 is then
  interpolated to 92.5.
\<close>

theorem drop_duplicates_by_value:
  "drop_duplicates [(0, Some 90), (0, Some 91), (1, Some 92)]
     = [(0, Some 90), (0, Some 91), (1, Some 92)]
   \<and> activity_series [0, 0, 1] [90, 91, 92] = Inl ValueError
   \<and> drop_duplicates [(0, Some 90), (1, Some 90), (2, Some 95), (3, Some 96)]
     = [(0, Some 90), (2, Some 95), (3, Some 96)]
   \<and> activity_series [0, 1, 2, 3] [90, 90, 95, 96] = Inr [Some 90, Some (92.5), Some 95]"
  by code_simp

section \<open>The index of the table\<close>

lemma DataFrame_index: "map fst (DataFrame ds) = ds"
  by (simp add: DataFrame_def comp_def)

lemma loc_update_index: "map fst (loc_update day f df) = map fst df"
  by (induction df) (auto simp: loc_update_def)

lemma process_activity_index:
  "process_activity parse df a hr_max = Inr df' \<Longrightarrow> map fst df' = map fst df"
  unfolding process_activity_def
  by (auto split: sum.splits if_splits option.splits prod.splits simp: loc_update_index)

lemma process_all_index:
  "process_all parse hr_max df acts = Inr df' \<Longrightarrow> map fst df' = map fst df"
proof (induction acts arbitrary: df)
  case Nil
  then show ?case by simp
next
  case (Cons a acts)
  then show ?case
    by (auto split: sum.splits dest: process_activity_index)
qed

lemma fillna_index: "map fst (fillna df) = map fst df"
  by (induction df) (auto simp: fillna_def)

lemma set_trimp_index: "map fst (set_trimp df) = map fst df"
  by (induction df) (auto simp: set_trimp_def)

lemma calculate_performance_from_index:
  "map fst (calculate_performance_from f g df) = map fst df"
  by (induction f g df rule: calculate_performance_from.induct) (simp_all add: Let_def)

lemma merged_frame_index:
  assumes "merged_frame parse today hr_max data = Inr df"
  shows "\<exists>first start_date. py_first data = Inr first
           \<and> activity_date parse first = Inr start_date
           \<and> map fst df = date_range start_date today"
  using assms unfolding merged_frame_def build_frame_def
  by (auto split: sum.splits dest!: process_all_index simp: DataFrame_index)

lemma script_index:
  assumes "script parse today hr_max data = Inr tbl"
  shows "\<exists>first start_date. py_first data = Inr first
           \<and> activity_date parse first = Inr start_date
           \<and> map fst tbl = date_range start_date today"
  using assms unfolding script_def calculate_performance_def
  by (auto split: sum.splits dest!: merged_frame_index
      simp: calculate_performance_from_index set_trimp_index fillna_index)

lemma date_range_sorted: "sorted_wrt (<) (date_range s e)"
  unfolding date_range_def by (simp add: sorted_wrt_upto)

section \<open>The training load of the days\<close>

lemma fillna_set_trimp_rows:
  assumes "r \<in> set (map snd (set_trimp (fillna df)))"
  shows "\<exists>z1 z2 z3 z4 z5. tz1 r = Some z1 \<and> tz2 r = Some z2 \<and> tz3 r = Some z3
           \<and> tz4 r = Some z4 \<and> tz5 r = Some z5
           \<and> trimp r = Some (z1 + 2 * z2 + 3 * z3 + 4 * z4 + 5 * z5)"
  using assms
  by (auto simp: set_trimp_def fillna_def fillna_row_def fill_number_def trimp_of_def
      nan_add_def nan_times_def split: option.splits)

lemma calculate_performance_from_nth:
  assumes "\<forall>r \<in> set (map snd df). \<exists>t. trimp r = Some t" and "i < length df"
  shows "\<exists>t p0 q0. trimp (snd (df ! i)) = Some t
     \<and> (if i = 0 then p0 = f0 \<and> q0 = g0
         else fitness (snd (calculate_performance_from (Some f0) (Some g0) df ! (i - 1))) = Some p0
            \<and> fatigue (snd (calculate_performance_from (Some f0) (Some g0) df ! (i - 1))) = Some q0)
     \<and> calculate_performance_from (Some f0) (Some g0) df ! i =
         (fst (df ! i),
          (snd (df ! i))\<lparr>fitness := Some (p0 * exp (- 1 / R1) + t),
                          fatigue := Some (q0 * exp (- 1 / R2) + t),
                          performance := Some ((p0 * exp (- 1 / R1) + t) * K1
                                                - (q0 * exp (- 1 / R2) + t) * K2)\<rparr>)"
  using assms
proof (induction df arbitrary: f0 g0 i)
  case Nil
  then show ?case by simp
next
  case (Cons x rest)
  obtain d r where x: "x = (d, r)" by (cases x)
  obtain t where t: "trimp r = Some t"
    using Cons.prems(1) x by auto
  let ?f1 = "f0 * exp (- 1 / R1) + t"
  let ?g1 = "g0 * exp (- 1 / R2) + t"
  have unfold: "calculate_performance_from (Some f0) (Some g0) (x # rest) =
      (d, r\<lparr>fitness := Some ?f1, fatigue := Some ?g1,
              performance := Some (?f1 * K1 - ?g1 * K2)\<rparr>)
        # calculate_performance_from (Some ?f1) (Some ?g1) rest"
    by (simp add: x t nan_add_def nan_times_def nan_sub_def Let_def)
  show ?case
  proof (cases i)
    case 0
    then show ?thesis
      unfolding unfold by (simp add: x t)
  next
    case (Suc j)
    have rows: "\<forall>r \<in> set (map snd rest). \<exists>t. trimp r = Some t"
      using Cons.prems(1) by simp
    have j: "j < length rest"
      using Cons.prems(2) Suc by simp
    obtain t' p0 q0 where ih: "trimp (snd (rest ! j)) = Some t'"
      "if j = 0 then p0 = ?f1 \<and> q0 = ?g1
         else fitness (snd (calculate_performance_from (Some ?f1) (Some ?g1) rest ! (j - 1))) = Some p0
            \<and> fatigue (snd (calculate_performance_from (Some ?f1) (Some ?g1) rest ! (j - 1))) = Some q0"
      "calculate_performance_from (Some ?f1) (Some ?g1) rest ! j =
         (fst (rest ! j),
          (snd (rest ! j))\<lparr>fitness := Some (p0 * exp (- 1 / R1) + t'),
                          fatigue := Some (q0 * exp (- 1 / R2) + t'),
                          performance := Some ((p0 * exp (- 1 / R1) + t') * K1
                                                - (q0 * exp (- 1 / R2) + t') * K2)\<rparr>)"
      using Cons.IH [OF rows j, of ?f1 ?g1] by blast
    have prev: "fitness (snd (calculate_performance_from (Some f0) (Some g0) (x # rest) ! j)) = Some p0
        \<and> fatigue (snd (calculate_performance_from (Some f0) (Some g0) (x # rest) ! j)) = Some q0"
    proof (cases j)
      case 0
      then show ?thesis
        using ih(2) unfolding unfold by simp
    next
      case (Suc k)
      then show ?thesis
        using ih(2) unfolding unfold by simp
    qed
    show ?thesis
      using ih(1,3) prev unfolding unfold Suc by auto
  qed
qed

lemma example_script_two_days:
  "script example_parse 19359 180 example_data =
     Inr [(19358, \<lparr> id_col = Some (JInt 1), name_col = Some (JStr ''Run''),
            tz0 = Some 0, tz1 = Some (5 / 60), tz2 = Some 0, tz3 = Some 0, tz4 = Some 0,
            tz5 = Some 0, trimp = Some (5 / 60), fitness = Some (5 / 60),
            fatigue = Some (5 / 60), form = Some 0,
            performance = Some (5 / 60 * 0.0076 - 5 / 60 * 0.0020) \<rparr>),
          (19359, \<lparr> id_col = Some (JInt 0), name_col = Some (JInt 0),
            tz0 = Some 0, tz1 = Some 0, tz2 = Some 0, tz3 = Some 0, tz4 = Some 0,
            tz5 = Some 0, trimp = Some 0, fitness = Some (5 / 60 * exp (- 1 / 60)),
            fatigue = Some (5 / 60 * exp (- 1 / 5)), form = Some 0,
            performance = Some (5 / 60 * exp (- 1 / 60) * 0.0076
                                 - 5 / 60 * exp (- 1 / 5) * 0.0020) \<rparr>)]"
proof -
  have range: "date_range (19358 + 1) 19359 = [19359]"
    unfolding date_range_def by code_simp
  have "merged_frame example_parse 19359 180 example_data =
     Inr ((19358, put_values (JInt 1) (JStr ''Run'') (aggregate [1, 1, 1, 1, 1]) nan_row)
            # DataFrame (date_range (19358 + 1) 19359))"
    unfolding example_data_def
    by (rule single_activity_merged [of example_parse _ 19358 19359, OF _ _ _ _ example_zones])
      (simp_all add: example_parse_def)
  then show ?thesis
    unfolding put_values_nan_row range
    by (simp add: script_def nan_row_def fillna_def fillna_row_def
        fill_number_def fill_object_def set_trimp_def trimp_of_def nan_add_def nan_times_def
        nan_sub_def calculate_performance_def R1_def R2_def K1_def K2_def Let_def DataFrame_def)
qed

text \<open>
  Claim C1. Let the script end with the table \<open>tbl\<close>. Its dates are strictly
  increasing down the table, and for every row \<open>i\<close>: the cells \<^verbatim>\<open>tz1\<close> to
  \<^verbatim>\<open>tz5\<close> are numbers \<open>z1\<close> to \<open>z5\<close>; \<^verbatim>\<open>trimp\<close> is
  \<open>z1 + 2 * z2 + 3 * z3 + 4 * z4 + 5 * z5\<close>; with \<open>f0\<close> and \<open>g0\<close> the
  \<^verbatim>\<open>fitness\<close> and \<^verbatim>\<open>fatigue\<close> of the row before (both 0 for the first
  row), \<^verbatim>\<open>fitness\<close> is \<open>f0 * exp (- 1 / 60) + trimp\<close>, \<^verbatim>\<open>fatigue\<close> is
  \<open>g0 * exp (- 1 / 5) + trimp\<close>, and \<^verbatim>\<open>performance\<close> is
  \<open>fitness * 0.0076 - fatigue * 0.0020\<close>.
\<close>

theorem performance_recurrence:
  assumes "script parse today hr_max data = Inr tbl" and "i < length tbl"
  shows "sorted_wrt (<) (map fst tbl)
     \<and> (\<exists>z1 z2 z3 z4 z5 t f0 g0 f g.
          tz1 (snd (tbl ! i)) = Some z1 \<and> tz2 (snd (tbl ! i)) = Some z2
        \<and> tz3 (snd (tbl ! i)) = Some z3 \<and> tz4 (snd (tbl ! i)) = Some z4
        \<and> tz5 (snd (tbl ! i)) = Some z5
        \<and> (if i = 0 then f0 = 0 \<and> g0 = 0
            else fitness (snd (tbl ! (i - 1))) = Some f0
               \<and> fatigue (snd (tbl ! (i - 1))) = Some g0)
        \<and> trimp (snd (tbl ! i)) = Some t
        \<and> t = z1 + 2 * z2 + 3 * z3 + 4 * z4 + 5 * z5
        \<and> fitness (snd (tbl ! i)) = Some f \<and> f = f0 * exp (- 1 / 60) + t
        \<and> fatigue (snd (tbl ! i)) = Some g \<and> g = g0 * exp (- 1 / 5) + t
        \<and> performance (snd (tbl ! i)) = Some (f * 0.0076 - g * 0.0020))"
proof -
  obtain df where df: "merged_frame parse today hr_max data = Inr df"
    and tbl: "tbl = calculate_performance (set_trimp (fillna df))"
    using assms(1) unfolding script_def by (auto split: sum.splits)
  let ?df = "set_trimp (fillna df)"
  have len: "length tbl = length ?df"
    using calculate_performance_from_index [of "Some 0" "Some 0" ?df]
    unfolding tbl calculate_performance_def by (metis length_map)
  have i: "i < length ?df"
    using assms(2) len by simp
  have rows: "\<forall>r \<in> set (map snd ?df). \<exists>t. trimp r = Some t"
    using fillna_set_trimp_rows [of _ df] by blast
  obtain t p0 q0 where step: "trimp (snd (?df ! i)) = Some t"
    "if i = 0 then p0 = 0 \<and> q0 = 0
       else fitness (snd (tbl ! (i - 1))) = Some p0 \<and> fatigue (snd (tbl ! (i - 1))) = Some q0"
    "tbl ! i =
         (fst (?df ! i),
          (snd (?df ! i))\<lparr>fitness := Some (p0 * exp (- 1 / R1) + t),
                          fatigue := Some (q0 * exp (- 1 / R2) + t),
                          performance := Some ((p0 * exp (- 1 / R1) + t) * K1
                                                - (q0 * exp (- 1 / R2) + t) * K2)\<rparr>)"
    using calculate_performance_from_nth [OF rows i, of 0 0]
    unfolding tbl calculate_performance_def by blast
  have "snd (?df ! i) \<in> set (map snd ?df)"
    using i by (metis length_map nth_map nth_mem)
  then obtain z1 z2 z3 z4 z5 where zs: "tz1 (snd (?df ! i)) = Some z1"
    "tz2 (snd (?df ! i)) = Some z2" "tz3 (snd (?df ! i)) = Some z3"
    "tz4 (snd (?df ! i)) = Some z4" "tz5 (snd (?df ! i)) = Some z5"
    "trimp (snd (?df ! i)) = Some (z1 + 2 * z2 + 3 * z3 + 4 * z4 + 5 * z5)"
    using fillna_set_trimp_rows [of "snd (?df ! i)" df] by blast
  have t: "t = z1 + 2 * z2 + 3 * z3 + 4 * z4 + 5 * z5"
    using step(1) zs(6) by simp
  have sorted: "sorted_wrt (<) (map fst tbl)"
    using script_index [OF assms(1)] date_range_sorted by auto
  have "tz1 (snd (tbl ! i)) = Some z1 \<and> tz2 (snd (tbl ! i)) = Some z2
        \<and> tz3 (snd (tbl ! i)) = Some z3 \<and> tz4 (snd (tbl ! i)) = Some z4
        \<and> tz5 (snd (tbl ! i)) = Some z5
        \<and> (if i = 0 then p0 = 0 \<and> q0 = 0
            else fitness (snd (tbl ! (i - 1))) = Some p0
               \<and> fatigue (snd (tbl ! (i - 1))) = Some q0)
        \<and> trimp (snd (tbl ! i)) = Some t
        \<and> t = z1 + 2 * z2 + 3 * z3 + 4 * z4 + 5 * z5
        \<and> fitness (snd (tbl ! i)) = Some (p0 * exp (- 1 / 60) + t)
        \<and> fatigue (snd (tbl ! i)) = Some (q0 * exp (- 1 / 5) + t)
        \<and> performance (snd (tbl ! i))
            = Some ((p0 * exp (- 1 / 60) + t) * 0.0076 - (q0 * exp (- 1 / 5) + t) * 0.0020)"
    using step(2) zs(1-5) step(1) t
    unfolding step(3) by (simp add: R1_def R2_def K1_def K2_def)
  then show ?thesis
    using sorted by blast
qed

theorem performance_recurrence_witness:
  "\<exists>tbl. script example_parse 19359 180 example_data = Inr tbl \<and> 1 < length tbl
     \<and> sorted_wrt (<) (map fst tbl)
     \<and> fitness (snd (tbl ! 0)) = Some (5 / 60) \<and> fatigue (snd (tbl ! 0)) = Some (5 / 60)
     \<and> (\<exists>z1 z2 z3 z4 z5 t f0 g0 f g.
          tz1 (snd (tbl ! 1)) = Some z1 \<and> tz2 (snd (tbl ! 1)) = Some z2
        \<and> tz3 (snd (tbl ! 1)) = Some z3 \<and> tz4 (snd (tbl ! 1)) = Some z4
        \<and> tz5 (snd (tbl ! 1)) = Some z5
        \<and> fitness (snd (tbl ! 0)) = Some f0 \<and> fatigue (snd (tbl ! 0)) = Some g0
        \<and> trimp (snd (tbl ! 1)) = Some t
        \<and> t = z1 + 2 * z2 + 3 * z3 + 4 * z4 + 5 * z5
        \<and> fitness (snd (tbl ! 1)) = Some f \<and> f = f0 * exp (- 1 / 60) + t
        \<and> fatigue (snd (tbl ! 1)) = Some g \<and> g = g0 * exp (- 1 / 5) + t
        \<and> performance (snd (tbl ! 1)) = Some (f * 0.0076 - g * 0.0020))"
  using performance_recurrence [of example_parse 19359 180 example_data _ 1]
  by (simp add: example_script_two_days)

end
